theory Spec2Isabelle
  imports Complex_Main
begin

section \<open>JavaScript values used by the OpenCog nodes\<close>

text \<open>
  A JavaScript number is a double. The nodes compare numbers, take \<open>Math.min\<close> and
  \<open>Math.max\<close> of them and test them for truthiness, none of which rounds; a finite
  number is modelled by the real it denotes, next to the three special values. \<open>-0\<close>
  is identified with \<open>0\<close> (both are falsy and compare equal). Decimal literals are
  read as the decimals they write, and the one product, \<open>Math.random() * 5\<close> in
  \<open>patternMatch\<close>, is taken exactly.
\<close>

datatype number = NaN | NegInfinity | Finite real | Infinity

text \<open>The relational operator \<open>a < b\<close> on numbers: false as soon as one side is NaN.\<close>

fun num_lt :: "number \<Rightarrow> number \<Rightarrow> bool" where
  "num_lt NaN b = False"
| "num_lt a NaN = False"
| "num_lt (Finite a) (Finite b) = (a < b)"
| "num_lt a NegInfinity = False"
| "num_lt NegInfinity b = True"
| "num_lt Infinity b = False"
| "num_lt (Finite a) Infinity = True"

text \<open>\<open>a > b\<close> and \<open>a >= b\<close>.\<close>

definition num_gt :: "number \<Rightarrow> number \<Rightarrow> bool" where
  "num_gt a b = num_lt b a"

definition num_ge :: "number \<Rightarrow> number \<Rightarrow> bool" where
  "num_ge a b = (a \<noteq> NaN \<and> b \<noteq> NaN \<and> \<not> num_lt a b)"

text \<open>\<open>Math.min(a, b)\<close> and \<open>Math.max(a, b)\<close>: NaN if either argument is NaN.\<close>

definition Math_min :: "number \<Rightarrow> number \<Rightarrow> number" where
  "Math_min a b = (if a = NaN \<or> b = NaN then NaN else if num_lt b a then b else a)"

definition Math_max :: "number \<Rightarrow> number \<Rightarrow> number" where
  "Math_max a b = (if a = NaN \<or> b = NaN then NaN else if num_lt a b then b else a)"

text \<open>Truthiness of a number, as \<open>||\<close> tests it: \<open>0\<close> and NaN are falsy.\<close>

definition truthy :: "number \<Rightarrow> bool" where
  "truthy n = (n \<noteq> NaN \<and> n \<noteq> Finite 0)"

text \<open>
  \<open>x || d\<close> where \<open>x\<close> is a property that may be \<open>undefined\<close> (\<open>None\<close>) and \<open>d\<close> a
  number.
\<close>

definition or_default :: "number option \<Rightarrow> number \<Rightarrow> number" where
  "or_default x d = (case x of None \<Rightarrow> d | Some n \<Rightarrow> if truthy n then n else d)"

text \<open>
  A template literal \<open>`${i}`\<close> renders a non-negative integer in decimal.
\<close>

definition digit :: "nat \<Rightarrow> char" where
  "digit d = ''0123456789'' ! d"

function toString :: "nat \<Rightarrow> string" where
  "toString n = (if n < 10 then [digit n] else toString (n div 10) @ [digit (n mod 10)])"
  by pat_completeness auto
termination
  by (relation "measure id") auto

declare toString.simps [simp del]

section \<open>The environment: \<open>Math.random\<close> and the clock\<close>

text \<open>
  Both nodes are simulations that draw from \<open>Math.random()\<close> and read the clock. The
  two sources are made explicit: \<open>randoms w\<close> is the sequence of values the coming
  calls of \<open>Math.random()\<close> return, \<open>clock w\<close> the successive readings of
  \<open>Date.now()\<close> and \<open>new Date()\<close> in epoch milliseconds. Each call takes the head of
  its sequence and leaves the rest.
\<close>

record world =
  randoms :: "nat \<Rightarrow> real"
  clock :: "nat \<Rightarrow> int"

definition Math_random :: "world \<Rightarrow> real \<times> world" where
  "Math_random w = (randoms w 0, w\<lparr>randoms := (\<lambda>n. randoms w (Suc n))\<rparr>)"

definition Date_now :: "world \<Rightarrow> int \<times> world" where
  "Date_now w = (clock w 0, w\<lparr>clock := (\<lambda>n. clock w (Suc n))\<rparr>)"

text \<open>\<open>Math.random()\<close> returns a number in \<open>[0, 1)\<close>.\<close>

definition valid_randoms :: "world \<Rightarrow> bool" where
  "valid_randoms w = (\<forall>n. 0 \<le> randoms w n \<and> randoms w n < 1)"

section \<open>The AtomSpace node\<close>

text \<open>
  The \<open>values\<close> object of the \<open>truthValue\<close> collection; it is passed through as it
  is, so either property may be missing.
\<close>

record truth_value =
  strength :: "number option"
  confidence :: "number option"

text \<open>
  The parameters \<open>context.getNodeParameter(name, itemIndex)\<close> returns for one item.
  \<open>p_truthValue\<close> is \<open>truthValueParam?.values\<close>: \<open>None\<close> when the parameter or its
  \<open>values\<close> is undefined. The node declares no parameter for the outgoing atoms of a
  link and no operation reads one; \<open>p_outgoing\<close> is what a caller puts under that name,
  carried along so that statements about it can be written.
\<close>

record atomspace_context =
  p_atomType :: string
  p_atomName :: string
  p_truthValue :: "truth_value option"
  p_pattern :: string
  p_maxResults :: number
  p_outgoing :: "string list"

text \<open>
  \<open>atomId\<close> is the string \<open>atom_<Date.now()>_<Math.random() in base 36, 9 digits>\<close>;
  the model keeps the two values it is rendered from. A timestamp is kept as the epoch
  milliseconds of the \<open>Date\<close> whose ISO rendering the source stores.
\<close>

record atom_id =
  id_time :: int
  id_random :: real

record addAtom_result =
  add_operation :: string
  atomId :: atom_id
  atomType :: string
  atomName :: string
  truthValue :: truth_value
  add_timestamp :: int
  add_success :: bool

definition default_truthValue :: truth_value where
  "default_truthValue = \<lparr>strength = Some (Finite 0.8), confidence = Some (Finite 0.9)\<rparr>"

definition addAtom :: "atomspace_context \<Rightarrow> world \<Rightarrow> addAtom_result \<times> world" where
  "addAtom context w =
     (let tv = (case p_truthValue context of Some v \<Rightarrow> v | None \<Rightarrow> default_truthValue);
          (t, w1) = Date_now w;
          (r, w2) = Math_random w1;
          (ts, w3) = Date_now w2
      in (\<lparr>add_operation = ''addAtom'',
           atomId = \<lparr>id_time = t, id_random = r\<rparr>,
           atomType = p_atomType context,
           atomName = p_atomName context,
           truthValue = tv,
           add_timestamp = ts,
           add_success = True\<rparr>, w3))"

record match =
  matchId :: string
  bindings :: "(string \<times> string) list"
  match_truthValue :: truth_value

record patternMatch_result =
  pm_operation :: string
  pm_pattern :: string
  matches :: "match list"
  matchCount :: nat

text \<open>
  The body of the loop of \<open>patternMatch\<close> at index \<open>i\<close>: two draws, one match pushed
  to the array \<open>matches\<close> (here \<open>ms\<close>).
\<close>

fun patternMatch_body :: "nat \<Rightarrow> match list \<times> world \<Rightarrow> match list \<times> world" where
  "patternMatch_body i (ms, w) =
     (let (s, w1) = Math_random w;
          (c, w2) = Math_random w1;
          m = \<lparr>matchId = ''match_'' @ toString i,
               bindings = [(''$X'', ''Entity_'' @ toString i),
                           (''$Y'', ''Property_'' @ toString i)],
               match_truthValue = \<lparr>strength = Some (Finite s), confidence = Some (Finite c)\<rparr>\<rparr>
      in (ms @ [m], w2))"

text \<open>
  The loop \<open>for (let i = 0; i < numMatches; i++)\<close>, where
  \<open>numMatches = Math.min(maxResults, k)\<close> and \<open>k = Math.floor(Math.random() * 5) + 1\<close>
  is computed once before the loop. The two arguments of the minimum are passed
  separately: \<open>k\<close> is finite, which is why the loop ends.
\<close>

lemma num_lt_Math_min_Finite:
  "num_lt (Finite a) (Math_min m (Finite k)) \<Longrightarrow> a < k"
  by (cases m) (auto simp: Math_min_def split: if_splits)

lemma loop_index_below:
  assumes "num_lt (Finite (real i)) (Math_min m (Finite k))"
  shows "i < nat \<lceil>k\<rceil>"
proof -
  have "real i < k"
    using assms by (rule num_lt_Math_min_Finite)
  then have "int i < \<lceil>k\<rceil>"
    by (simp add: less_ceiling_iff)
  then show ?thesis
    by linarith
qed

function patternMatch_loop ::
  "number \<Rightarrow> real \<Rightarrow> nat \<Rightarrow> match list \<times> world \<Rightarrow> match list \<times> world" where
  "patternMatch_loop maxResults k i s =
     (if num_lt (Finite (real i)) (Math_min maxResults (Finite k))
      then patternMatch_loop maxResults k (i + 1) (patternMatch_body i s)
      else s)"
  by pat_completeness auto
termination
  by (relation "measure (\<lambda>(maxResults, k, i, s). nat \<lceil>k\<rceil> - i)")
     (auto dest!: loop_index_below)

declare patternMatch_loop.simps [simp del]

definition patternMatch :: "atomspace_context \<Rightarrow> world \<Rightarrow> patternMatch_result \<times> world" where
  "patternMatch context w =
     (let pattern = p_pattern context;
          maxResults = p_maxResults context;
          (r, w1) = Math_random w;
          k = real_of_int \<lfloor>r * 5\<rfloor> + 1;
          (ms, w2) = patternMatch_loop maxResults k 0 ([], w1)
      in (\<lparr>pm_operation = ''patternMatch'',
           pm_pattern = pattern,
           matches = ms,
           matchCount = length ms\<rparr>, w2))"

record getTruthValue_result =
  get_operation :: string
  get_atomName :: string
  get_truthValue :: truth_value
  exists :: bool

definition getTruthValue :: "atomspace_context \<Rightarrow> world \<Rightarrow> getTruthValue_result \<times> world" where
  "getTruthValue context w =
     (let name = p_atomName context;
          (s, w1) = Math_random w;
          (c, w2) = Math_random w1
      in (\<lparr>get_operation = ''getTruthValue'',
           get_atomName = name,
           get_truthValue = \<lparr>strength = Some (Finite s), confidence = Some (Finite c)\<rparr>,
           exists = True\<rparr>, w2))"

record setTruthValue_result =
  set_operation :: string
  set_atomName :: string
  oldTruthValue :: truth_value
  newTruthValue :: truth_value
  set_success :: bool

definition setTruthValue :: "atomspace_context \<Rightarrow> world \<Rightarrow> setTruthValue_result \<times> world" where
  "setTruthValue context w =
     (let name = p_atomName context;
          tv = (case p_truthValue context of Some v \<Rightarrow> v | None \<Rightarrow> default_truthValue);
          (s, w1) = Math_random w;
          (c, w2) = Math_random w1
      in (\<lparr>set_operation = ''setTruthValue'',
           set_atomName = name,
           oldTruthValue = \<lparr>strength = Some (Finite s), confidence = Some (Finite c)\<rparr>,
           newTruthValue = tv,
           set_success = True\<rparr>, w2))"

section \<open>The ReasoningEngine node\<close>

text \<open>
  The \<open>values\<close> object of the \<open>reasoningParams\<close> collection, with every property
  optional (type parameters \<open>number option\<close>, \<open>bool option\<close>), and the object
  \<open>getReasoningParams\<close> returns, with every property set (\<open>number\<close>, \<open>bool\<close>).
\<close>

record ('n, 'b) reasoning_params =
  maxSteps :: 'n
  confidenceThreshold :: 'n
  maxResults :: 'n
  useUncertainty :: 'b

text \<open>
  The parameters of one item. \<open>p_reasoningParams\<close> is \<open>paramsCollection?.values\<close>:
  \<open>None\<close> when the collection or its \<open>values\<close> is undefined.
\<close>

record reasoning_context =
  p_inputKnowledge :: string
  p_goalQuery :: string
  p_timeWindow :: string
  p_reasoningParams :: "(number option, bool option) reasoning_params option"

definition getReasoningParams :: "reasoning_context \<Rightarrow> (number, bool) reasoning_params" where
  "getReasoningParams context =
     (let params = (case p_reasoningParams context of
                      Some v \<Rightarrow> v
                    | None \<Rightarrow> \<lparr>maxSteps = None, confidenceThreshold = None,
                               maxResults = None, useUncertainty = None\<rparr>)
      in \<lparr>maxSteps = or_default (maxSteps params) (Finite 10),
          confidenceThreshold = or_default (confidenceThreshold params) (Finite 0.7),
          maxResults = or_default (maxResults params) (Finite 10),
          useUncertainty = (useUncertainty params \<noteq> Some False)\<rparr>)"

subsection \<open>Forward chaining\<close>

record fc_step =
  stepNumber :: nat
  rule :: string
  premise :: string
  conclusion :: string
  step_confidence :: number

record fc_conclusion =
  statement :: string
  conclusion_confidence :: number
  derivation :: string

record forwardChaining_result =
  fc_reasoningType :: string
  fc_inputKnowledge :: string
  steps :: "fc_step list"
  conclusions :: "fc_conclusion list"
  totalSteps :: nat
  validConclusions :: nat
  fc_timestamp :: int

text \<open>
  The body of the loop of \<open>performForwardChaining\<close> at index \<open>i\<close>; \<open>ss\<close> and \<open>cs\<close>
  are the arrays \<open>steps\<close> and \<open>conclusions\<close> it pushes to.
\<close>

fun forwardChaining_body ::
  "(number, bool) reasoning_params \<Rightarrow> nat \<Rightarrow> fc_step list \<times> fc_conclusion list \<times> world \<Rightarrow>
     fc_step list \<times> fc_conclusion list \<times> world" where
  "forwardChaining_body params i (ss, cs, w) =
     (let (r, w1) = Math_random w;
          step = \<lparr>stepNumber = i + 1,
                  rule = ''Rule_'' @ toString (i + 1),
                  premise = ''Premise_'' @ toString (i + 1),
                  conclusion = ''Conclusion_'' @ toString (i + 1),
                  step_confidence = Math_max (confidenceThreshold params) (Finite r)\<rparr>;
          cs1 = (if num_ge (step_confidence step) (confidenceThreshold params)
                 then cs @ [\<lparr>statement = conclusion step,
                             conclusion_confidence = step_confidence step,
                             derivation = ''Derived from '' @ premise step @ '' using '' @ rule step\<rparr>]
                 else cs)
      in (ss @ [step], cs1, w1))"

text \<open>The loop \<open>for (let i = 0; i < Math.min(params.maxSteps, 5); i++)\<close>.\<close>

function forwardChaining_loop ::
  "(number, bool) reasoning_params \<Rightarrow> nat \<Rightarrow> fc_step list \<times> fc_conclusion list \<times> world \<Rightarrow>
     fc_step list \<times> fc_conclusion list \<times> world" where
  "forwardChaining_loop params i s =
     (if num_lt (Finite (real i)) (Math_min (maxSteps params) (Finite 5))
      then forwardChaining_loop params (i + 1) (forwardChaining_body params i s)
      else s)"
  by pat_completeness auto
termination
  by (relation "measure (\<lambda>(params, i, s). 5 - i)")
     (auto dest!: loop_index_below)

declare forwardChaining_loop.simps [simp del]

definition performForwardChaining ::
  "reasoning_context \<Rightarrow> world \<Rightarrow> forwardChaining_result \<times> world" where
  "performForwardChaining context w =
     (let inputKnowledge = p_inputKnowledge context;
          params = getReasoningParams context;
          (ss, cs, w1) = forwardChaining_loop params 0 ([], [], w);
          (ts, w2) = Date_now w1
      in (\<lparr>fc_reasoningType = ''forwardChaining'',
           fc_inputKnowledge = inputKnowledge,
           steps = ss,
           conclusions = cs,
           totalSteps = length ss,
           validConclusions = length cs,
           fc_timestamp = ts\<rparr>, w2))"

subsection \<open>Backward chaining\<close>

record bc_subgoal =
  goal :: string
  status :: string
  subgoal_confidence :: number

record bc_proofStep =
  ps_step :: nat
  ps_goal :: string
  ps_proof :: string
  ps_confidence :: number

record backwardChaining_result =
  bc_reasoningType :: string
  bc_inputKnowledge :: string
  bc_goalQuery :: string
  subgoals :: "bc_subgoal list"
  proofSteps :: "bc_proofStep list"
  goalProven :: bool
  overallConfidence :: number
  bc_timestamp :: int

text \<open>
  The body of the loop of \<open>performBackwardChaining\<close> at index \<open>i\<close>; \<open>gs\<close> and
  \<open>ps\<close> are the arrays \<open>subgoals\<close> and \<open>proofSteps\<close>. The status is drawn before
  the confidence.
\<close>

fun backwardChaining_body ::
  "nat \<Rightarrow> bc_subgoal list \<times> bc_proofStep list \<times> world \<Rightarrow>
     bc_subgoal list \<times> bc_proofStep list \<times> world" where
  "backwardChaining_body i (gs, ps, w) =
     (let (r1, w1) = Math_random w;
          (r2, w2) = Math_random w1;
          subgoal = \<lparr>goal = ''Subgoal_'' @ toString (i + 1),
                     status = (if num_gt (Finite r1) (Finite 0.3) then ''proven'' else ''unproven''),
                     subgoal_confidence = Finite r2\<rparr>;
          ps1 = (if status subgoal = ''proven''
                 then ps @ [\<lparr>ps_step = i + 1,
                             ps_goal = goal subgoal,
                             ps_proof = ''Proven by rule application'',
                             ps_confidence = subgoal_confidence subgoal\<rparr>]
                 else ps)
      in (gs @ [subgoal], ps1, w2))"

text \<open>The loop \<open>for (let i = 0; i < Math.min(params.maxSteps, 3); i++)\<close>.\<close>

function backwardChaining_loop ::
  "(number, bool) reasoning_params \<Rightarrow> nat \<Rightarrow> bc_subgoal list \<times> bc_proofStep list \<times> world \<Rightarrow>
     bc_subgoal list \<times> bc_proofStep list \<times> world" where
  "backwardChaining_loop params i s =
     (if num_lt (Finite (real i)) (Math_min (maxSteps params) (Finite 3))
      then backwardChaining_loop params (i + 1) (backwardChaining_body i s)
      else s)"
  by pat_completeness auto
termination
  by (relation "measure (\<lambda>(params, i, s). 3 - i)")
     (auto dest!: loop_index_below)

declare backwardChaining_loop.simps [simp del]

text \<open>
  \<open>subgoals.filter(s => s.status === 'proven').reduce((acc, s) => Math.min(acc,
  s.confidence), 1)\<close>
\<close>

definition proven :: "bc_subgoal list \<Rightarrow> bc_subgoal list" where
  "proven gs = filter (\<lambda>s. status s = ''proven'') gs"

definition reduce_min :: "bc_subgoal list \<Rightarrow> number" where
  "reduce_min gs = foldl (\<lambda>acc s. Math_min acc (subgoal_confidence s)) (Finite 1) gs"

definition performBackwardChaining ::
  "reasoning_context \<Rightarrow> world \<Rightarrow> backwardChaining_result \<times> world" where
  "performBackwardChaining context w =
     (let inputKnowledge = p_inputKnowledge context;
          goalQuery = p_goalQuery context;
          params = getReasoningParams context;
          (gs, ps, w1) = backwardChaining_loop params 0 ([], [], w);
          overall = reduce_min (proven gs);
          (ts, w2) = Date_now w1
      in (\<lparr>bc_reasoningType = ''backwardChaining'',
           bc_inputKnowledge = inputKnowledge,
           bc_goalQuery = goalQuery,
           subgoals = gs,
           proofSteps = ps,
           goalProven = num_ge overall (confidenceThreshold params),
           overallConfidence = overall,
           bc_timestamp = ts\<rparr>, w2))"

subsection \<open>Temporal reasoning\<close>

record temporalFact =
  fact :: string
  fact_timestamp :: int
  duration :: string

record temporalRelation =
  event1 :: string
  event2 :: string
  relation :: string
  relation_confidence :: number
  relation_type :: string

record temporal_prediction =
  event :: string
  predictedTime :: int
  prediction_confidence :: number

record consistency_check =
  isConsistent :: bool
  violations :: "string list"
  warnings :: "string list"

record temporalReasoning_result =
  tr_reasoningType :: string
  tr_inputKnowledge :: string
  tr_timeWindow :: string
  temporalFacts :: "temporalFact list"
  temporalRelations :: "temporalRelation list"
  predictions :: "temporal_prediction list"
  consistencyCheck :: consistency_check
  tr_timestamp :: int

definition performTemporalReasoning ::
  "reasoning_context \<Rightarrow> world \<Rightarrow> temporalReasoning_result \<times> world" where
  "performTemporalReasoning context w =
     (let inputKnowledge = p_inputKnowledge context;
          timeWindow = p_timeWindow context;
          params = getReasoningParams context;
          (t1, w1) = Date_now w;
          (t2, w2) = Date_now w1;
          facts = [\<lparr>fact = ''Event_A occurred'', fact_timestamp = t1 - 3600000,
                     duration = ''30 minutes''\<rparr>,
                   \<lparr>fact = ''Event_B occurred'', fact_timestamp = t2,
                     duration = ''ongoing''\<rparr>];
          relations = [\<lparr>event1 = ''Event_A'', event2 = ''Event_B'', relation = ''before'',
                         relation_confidence = Finite 0.95,
                         relation_type = ''temporal_precedence''\<rparr>];
          (r1, w3) = Math_random w2;
          check = \<lparr>isConsistent = num_gt (Finite r1) (Finite 0.2),
                   violations = [], warnings = []\<rparr>;
          (t3, w4) = Date_now w3;
          (r2, w5) = Math_random w4;
          (t4, w6) = Date_now w5
      in (\<lparr>tr_reasoningType = ''temporalReasoning'',
           tr_inputKnowledge = inputKnowledge,
           tr_timeWindow = timeWindow,
           temporalFacts = facts,
           temporalRelations = relations,
           predictions = [\<lparr>event = ''Future_Event_C'', predictedTime = t3 + 3600000,
                            prediction_confidence = Finite r2\<rparr>],
           consistencyCheck = check,
           tr_timestamp = t4\<rparr>, w6))"

section \<open>Notions of the specification and concrete inputs\<close>

text \<open>
  As the specification states it: the required arity of each link kind (Inheritance 2,
  Similarity 2, Evaluation 2 or more, the generic link any number), by the type names
  the node offers. The node itself has no such table.
\<close>

definition arity_matches :: "string \<Rightarrow> nat \<Rightarrow> bool" where
  "arity_matches kind n =
     (if kind = ''InheritanceLink'' then n = 2
      else if kind = ''SimilarityLink'' then n = 2
      else if kind = ''EvaluationLink'' then 2 \<le> n
      else True)"

text \<open>\<open>v\<close> is the minimum of the numbers \<open>xs\<close>: one of them, and none is smaller.\<close>

definition is_minimum_of :: "number \<Rightarrow> number list \<Rightarrow> bool" where
  "is_minimum_of v xs = (v \<in> set xs \<and> (\<forall>x\<in>set xs. num_ge x v))"

text \<open>The confidences of the subgoals of a result whose status is \<open>'proven'\<close>.\<close>

definition proven_confidences :: "backwardChaining_result \<Rightarrow> number list" where
  "proven_confidences r = map subgoal_confidence (proven (subgoals r))"

text \<open>The match at position \<open>j\<close> of the array carries the index \<open>j\<close> in its id and bindings.\<close>

definition numbered :: "match list \<Rightarrow> bool" where
  "numbered ms =
     (\<forall>j<length ms. matchId (ms ! j) = ''match_'' @ toString j \<and>
        bindings (ms ! j) = [(''$X'', ''Entity_'' @ toString j), (''$Y'', ''Property_'' @ toString j)])"

text \<open>
  The state of the backward chaining loop holds draws only: the coming draws lie in
  \<open>[0, 1)\<close> and every confidence pushed so far is below 1.
\<close>

definition drawn :: "bc_subgoal list \<times> bc_proofStep list \<times> world \<Rightarrow> bool" where
  "drawn s = (valid_randoms (snd (snd s)) \<and>
              (\<forall>g\<in>set (fst s). num_lt (subgoal_confidence g) (Finite 1)))"

text \<open>Worlds: every draw the same; the draws of a run; a first draw of 0, then 1/2.\<close>

definition constant_world :: "real \<Rightarrow> world" where
  "constant_world r = \<lparr>randoms = (\<lambda>n. r), clock = (\<lambda>n. int n)\<rparr>"

definition scenario_world :: world where
  "scenario_world =
     \<lparr>randoms = (\<lambda>n. if n = 1 then 9 / 10 else if n = 3 then 6 / 10
                      else if n = 5 then 8 / 10 else 1 / 2),
      clock = (\<lambda>n. int n)\<rparr>"

definition low_then_half_world :: world where
  "low_then_half_world = \<lparr>randoms = (\<lambda>n. if n = 0 then 0 else 1 / 2), clock = (\<lambda>n. int n)\<rparr>"

text \<open>Node parameters, by atom type, result limit and outgoing list.\<close>

definition atomspace_example :: "string \<Rightarrow> number \<Rightarrow> string list \<Rightarrow> atomspace_context" where
  "atomspace_example type_param max_param outgoing_param =
     \<lparr>p_atomType = type_param,
      p_atomName = ''TestAtom'',
      p_truthValue = Some \<lparr>strength = Some (Finite 0.6), confidence = Some (Finite 0.7)\<rparr>,
      p_pattern = ''(InheritanceLink (VariableNode \"$X\") (ConceptNode \"Animal\"))'',
      p_maxResults = max_param,
      p_outgoing = outgoing_param\<rparr>"

text \<open>
  Node parameters of a reasoning run with threshold 0.7, by \<open>maxSteps\<close>; the input
  knowledge asserts both "before" and "after" of one pair of events.
\<close>

definition reasoning_example :: "number option \<Rightarrow> reasoning_context" where
  "reasoning_example steps_param =
     \<lparr>p_inputKnowledge = ''Event_A before Event_B. Event_A after Event_B.'',
      p_goalQuery = ''Prove C'',
      p_timeWindow = ''1h'',
      p_reasoningParams = Some \<lparr>maxSteps = steps_param, confidenceThreshold = Some (Finite 0.7),
                                maxResults = None, useUncertainty = Some True\<rparr>\<rparr>"

text \<open>Node parameters in which the caller sets all three numeric parameters to 0.\<close>

definition zero_params :: "(number option, bool option) reasoning_params" where
  "zero_params = \<lparr>maxSteps = Some (Finite 0), confidenceThreshold = Some (Finite 0),
                  maxResults = Some (Finite 0), useUncertainty = None\<rparr>"

definition zero_example :: reasoning_context where
  "zero_example =
     \<lparr>p_inputKnowledge = ''If A then B. A is true.'',
      p_goalQuery = [],
      p_timeWindow = ''1h'',
      p_reasoningParams = Some zero_params\<rparr>"

section \<open>Basic facts\<close>

lemma Math_random_simps [simp]:
  "fst (Math_random w) = randoms w 0"
  "randoms (snd (Math_random w)) n = randoms w (Suc n)"
  "clock (snd (Math_random w)) = clock w"
  by (simp_all add: Math_random_def)

lemma Date_now_simps [simp]:
  "fst (Date_now w) = clock w 0"
  "clock (snd (Date_now w)) n = clock w (Suc n)"
  "randoms (snd (Date_now w)) = randoms w"
  by (simp_all add: Date_now_def)

lemma Math_random_constant_world [simp]:
  "Math_random (constant_world r) = (r, constant_world r)"
  by (simp add: Math_random_def constant_world_def)

lemma valid_randoms_constant_world [simp]:
  "valid_randoms (constant_world r) \<longleftrightarrow> 0 \<le> r \<and> r < 1"
  by (simp add: valid_randoms_def constant_world_def)

lemma valid_randoms_scenario_world [simp]: "valid_randoms scenario_world"
  by (simp add: valid_randoms_def scenario_world_def)

lemma num_ge_trans: "num_ge a b \<Longrightarrow> num_ge b c \<Longrightarrow> num_ge a c"
  by (cases a; cases b; cases c) (auto simp: num_ge_def)

lemma Math_min_cases:
  assumes "a \<noteq> NaN" and "b \<noteq> NaN"
  shows "Math_min a b \<noteq> NaN" and "Math_min a b = a \<or> Math_min a b = b"
    and "num_ge a (Math_min a b)" and "num_ge b (Math_min a b)"
  using assms by (cases a; cases b; auto simp: Math_min_def num_ge_def)+

subsection \<open>\<open>getReasoningParams\<close>\<close>

lemma getReasoningParams_truthy:
  "truthy (maxSteps (getReasoningParams c))"
  "truthy (confidenceThreshold (getReasoningParams c))"
  "truthy (maxResults (getReasoningParams c))"
  by (simp_all add: getReasoningParams_def Let_def truthy_def or_default_def split: option.splits)

lemma getReasoningParams_example [simp]:
  "getReasoningParams (reasoning_example (Some (Finite x))) =
     \<lparr>maxSteps = (if x = 0 then Finite 10 else Finite x), confidenceThreshold = Finite 0.7,
      maxResults = Finite 10, useUncertainty = True\<rparr>"
  by (simp add: getReasoningParams_def reasoning_example_def or_default_def truthy_def)

lemma getReasoningParams_zero_example:
  "getReasoningParams zero_example =
     \<lparr>maxSteps = Finite 10, confidenceThreshold = Finite 0.7,
      maxResults = Finite 10, useUncertainty = True\<rparr>"
  by (simp add: getReasoningParams_def zero_example_def zero_params_def or_default_def truthy_def)

text \<open>The threshold in force is at least the one the caller supplied.\<close>

lemma supplied_threshold_below:
  assumes "p_reasoningParams c = Some v" and "confidenceThreshold v = Some t" and "t \<noteq> NaN"
    and "num_ge x (confidenceThreshold (getReasoningParams c))"
  shows "num_ge x t"
proof (cases "t = Finite 0")
  case True
  have "confidenceThreshold (getReasoningParams c) = Finite 0.7"
    using assms(1,2) True by (simp add: getReasoningParams_def or_default_def truthy_def)
  moreover have "num_ge (Finite 0.7) (Finite 0)"
    by (simp add: num_ge_def)
  ultimately show ?thesis
    using assms(4) True by (metis num_ge_trans)
next
  case False
  then have "confidenceThreshold (getReasoningParams c) = t"
    using assms(1,2,3) by (simp add: getReasoningParams_def or_default_def truthy_def)
  then show ?thesis
    using assms(4) by simp
qed

section \<open>The AtomSpace node: truth values and atoms\<close>

text \<open>
  The node keeps no store: \<open>setTruthValue\<close> echoes the value it is given and
  \<open>getTruthValue\<close> draws a fresh one. Claim C1, for every atom and every valid truth
  value \<open>t\<close>, expects \<open>getTruthValue\<close> right after \<open>setTruthValue\<close> with \<open>t\<close> to return
  \<open>t\<close>. With \<open>t = (0.6, 0.7)\<close> and draws of 1/2 the value read back is \<open>(0.5, 0.5)\<close>.
\<close>

theorem getTruthValue_after_setTruthValue_differs:
  "get_truthValue (fst (getTruthValue (atomspace_example ''ConceptNode'' (Finite 100) [])
      (snd (setTruthValue (atomspace_example ''ConceptNode'' (Finite 100) [])
             (constant_world (1 / 2))))))
   \<noteq> \<lparr>strength = Some (Finite 0.6), confidence = Some (Finite 0.7)\<rparr>"
  by (simp add: getTruthValue_def setTruthValue_def atomspace_example_def Let_def split_def)

text \<open>
  Claim C1, as the code has it: \<open>setTruthValue\<close> reports the value it was given as
  \<open>newTruthValue\<close> (the default \<open>(0.8, 0.9)\<close> when none is given), and a
  \<open>getTruthValue\<close> right after it, for whatever atom, returns the third and fourth
  draw of the random source (the first two went into \<open>oldTruthValue\<close>), whatever was
  set.
\<close>

theorem getTruthValue_after_setTruthValue_drawn:
  "newTruthValue (fst (setTruthValue context w)) =
      (case p_truthValue context of Some t \<Rightarrow> t | None \<Rightarrow> default_truthValue) \<and>
   get_truthValue (fst (getTruthValue context' (snd (setTruthValue context w)))) =
      \<lparr>strength = Some (Finite (randoms w 2)), confidence = Some (Finite (randoms w 3))\<rparr>"
  by (simp add: getTruthValue_def setTruthValue_def Let_def split_def numeral_2_eq_2 numeral_3_eq_3)

text \<open>
  Claim C2 expects \<open>addAtom\<close> to fail with \<open>InvalidArity\<close>, creating no entry, when the
  outgoing list does not have the arity of the link kind. An \<open>InheritanceLink\<close> with
  the single outgoing atom \<open>Human\<close> is reported as added.
\<close>

theorem addAtom_arity_mismatch_succeeds:
  "\<not> arity_matches ''InheritanceLink'' (length [''Human'']) \<and>
   add_success (fst (addAtom (atomspace_example ''InheritanceLink'' (Finite 100) [''Human''])
      (constant_world (1 / 2))))"
  by (simp add: arity_matches_def addAtom_def Let_def split_def)

text \<open>
  Claim C2, as the code has it: \<open>addAtom\<close> has no failure. For every atom type, name,
  truth value and outgoing list it returns an entry with \<open>success\<close> true that echoes
  the type, the name and the truth value, and the outgoing list has no influence on
  the result.
\<close>

theorem addAtom_always_succeeds:
  "add_success (fst (addAtom context w)) \<and>
   atomType (fst (addAtom context w)) = p_atomType context \<and>
   atomName (fst (addAtom context w)) = p_atomName context \<and>
   truthValue (fst (addAtom context w)) =
     (case p_truthValue context of Some t \<Rightarrow> t | None \<Rightarrow> default_truthValue) \<and>
   addAtom (context\<lparr>p_outgoing := out\<rparr>) w = addAtom context w"
  by (simp add: addAtom_def Let_def split_def)

section \<open>The AtomSpace node: pattern matching\<close>

lemma patternMatch_body_fst:
  "\<exists>m. fst (patternMatch_body i s) = fst s @ [m] \<and>
       matchId m = ''match_'' @ toString i \<and>
       bindings m = [(''$X'', ''Entity_'' @ toString i), (''$Y'', ''Property_'' @ toString i)]"
  by (cases s) (simp add: Let_def split_def)

lemma patternMatch_body_length:
  "length (fst (patternMatch_body i s)) = Suc (length (fst s))"
  using patternMatch_body_fst [of i s] by auto

text \<open>
  With a finite \<open>maxResults = x\<close> the loop stops at the first index that is not
  below \<open>x\<close>, which is \<open>x\<close> rounded up (0 for a negative \<open>x\<close>) at the latest.
\<close>

lemma patternMatch_loop_length_finite:
  assumes "m = Finite x"
  shows "length (fst (patternMatch_loop m k i s)) \<le> length (fst s) + (nat \<lceil>x\<rceil> - i)"
  using assms
proof (induction m k i s rule: patternMatch_loop.induct)
  case (1 m k i s)
  show ?case
  proof (cases "num_lt (Finite (real i)) (Math_min m (Finite k))")
    case True
    then have "real i < x"
      using "1.prems" by (auto simp: Math_min_def split: if_splits)
    then have "int i < \<lceil>x\<rceil>"
      by (simp add: less_ceiling_iff)
    then have "i < nat \<lceil>x\<rceil>"
      by linarith
    moreover have "patternMatch_loop m k i s =
        patternMatch_loop m k (i + 1) (patternMatch_body i s)"
      using True by (subst patternMatch_loop.simps) simp
    ultimately show ?thesis
      using "1.IH" [OF True "1.prems"] patternMatch_body_length [of i s]
      by (simp only:; arith)
  next
    case False
    then have "patternMatch_loop m k i s = s"
      by (subst patternMatch_loop.simps) simp
    then show ?thesis
      by simp
  qed
qed

lemma numbered_body:
  assumes "numbered (fst s)" and "i = length (fst s)"
  shows "numbered (fst (patternMatch_body i s))"
proof -
  obtain m where m: "fst (patternMatch_body i s) = fst s @ [m]"
    "matchId m = ''match_'' @ toString i"
    "bindings m = [(''$X'', ''Entity_'' @ toString i), (''$Y'', ''Property_'' @ toString i)]"
    using patternMatch_body_fst by blast
  show ?thesis
    using assms m by (auto simp: numbered_def nth_append less_Suc_eq)
qed

lemma numbered_loop:
  assumes "numbered (fst s)" and "i = length (fst s)"
  shows "numbered (fst (patternMatch_loop m k i s))"
  using assms
proof (induction m k i s rule: patternMatch_loop.induct)
  case (1 m k i s)
  show ?case
  proof (cases "num_lt (Finite (real i)) (Math_min m (Finite k))")
    case True
    have "i + 1 = length (fst (patternMatch_body i s))"
      using "1.prems"(2) patternMatch_body_length [of i s] by linarith
    moreover have "numbered (fst (patternMatch_body i s))"
      using "1.prems" by (rule numbered_body)
    ultimately have "numbered (fst (patternMatch_loop m k (i + 1) (patternMatch_body i s)))"
      using True by (intro "1.IH")
    then show ?thesis
      using True by (subst patternMatch_loop.simps) simp
  next
    case False
    then show ?thesis
      using "1.prems" by (subst patternMatch_loop.simps) simp
  qed
qed

lemma numbered_patternMatch: "numbered (matches (fst (patternMatch c w)))"
proof -
  have "numbered (fst (patternMatch_loop m k 0 ([], w')))" for m k w'
    by (rule numbered_loop) (simp_all add: numbered_def)
  then show ?thesis
    by (simp add: patternMatch_def Let_def split_def)
qed

text \<open>Runs of \<open>patternMatch\<close> on the example parameters.\<close>

lemma patternMatch_example_length:
  "length (matches (fst (patternMatch (atomspace_example t (Finite (5 / 2)) out)
     (constant_world (1 / 2))))) = 3"
  "length (matches (fst (patternMatch (atomspace_example t (Finite 2) out)
     (constant_world (9 / 10))))) = 2"
  "length (matches (fst (patternMatch (atomspace_example t (Finite 10) out)
     (constant_world (1 / 2))))) = 3"
  "length (matches (fst (patternMatch (atomspace_example t (Finite 10) out)
     low_then_half_world))) = 1"
  by (simp_all add: patternMatch_def atomspace_example_def Let_def split_def low_then_half_world_def
      patternMatch_loop.simps Math_min_def)

lemma patternMatch_example_world:
  "snd (patternMatch (atomspace_example t (Finite 10) out) low_then_half_world) =
     constant_world (1 / 2)"
  by (simp add: patternMatch_def atomspace_example_def Let_def split_def low_then_half_world_def
      patternMatch_loop.simps Math_min_def constant_world_def Math_random_def)

text \<open>
  Claim C5: for every pattern and every non-negative \<open>maxResults\<close>, a count of
  results and as such a whole number \<open>n\<close>, the matches returned by \<open>patternMatch\<close>
  contain at most \<open>maxResults\<close> elements.
\<close>

theorem patternMatch_maxResults_bound:
  assumes "p_maxResults context = Finite (real n)"
  shows "length (matches (fst (patternMatch context w))) \<le> n"
proof -
  have "length (fst (patternMatch_loop (p_maxResults context) k 0 ([], w'))) \<le> nat \<lceil>real n\<rceil>"
    for k w'
    using patternMatch_loop_length_finite [OF assms, of k 0 "([], w')"] by simp
  then show ?thesis
    by (simp add: patternMatch_def Let_def split_def)
qed

text \<open>
  With \<open>maxResults = 2\<close> and a first draw of 0.9 (five candidate matches) exactly 2
  matches come back.
\<close>

theorem patternMatch_maxResults_bound_witness:
  "p_maxResults (atomspace_example ''ConceptNode'' (Finite 2) []) = Finite (real 2) \<and>
   length (matches (fst (patternMatch (atomspace_example ''ConceptNode'' (Finite 2) [])
      (constant_world (9 / 10))))) = 2 \<and>
   length (matches (fst (patternMatch (atomspace_example ''ConceptNode'' (Finite 2) [])
      (constant_world (9 / 10))))) \<le> 2"
proof -
  have p: "p_maxResults (atomspace_example ''ConceptNode'' (Finite 2) []) = Finite (real 2)"
    by (simp add: atomspace_example_def)
  show ?thesis
    using p patternMatch_maxResults_bound [OF p, of "constant_world (9 / 10)"]
    by (simp add: patternMatch_example_length)
qed

text \<open>
  Claim C6 expects two invocations with the same pattern and the same \<open>maxResults\<close>
  to return the same matches. Nothing but the random source changes between two
  consecutive invocations here, and the first returns 1 match, the second 3.
\<close>

theorem patternMatch_consecutive_calls_differ:
  "fst (patternMatch (atomspace_example ''ConceptNode'' (Finite 10) []) low_then_half_world) \<noteq>
   fst (patternMatch (atomspace_example ''ConceptNode'' (Finite 10) [])
     (snd (patternMatch (atomspace_example ''ConceptNode'' (Finite 10) []) low_then_half_world)))"
proof -
  let ?c = "atomspace_example ''ConceptNode'' (Finite 10) []"
  have "length (matches (fst (patternMatch ?c low_then_half_world))) \<noteq>
      length (matches (fst (patternMatch ?c (constant_world (1 / 2)))))"
    by (simp add: patternMatch_example_length)
  then show ?thesis
    by (auto simp: patternMatch_example_world)
qed

text \<open>
  Claim C6, as the code has it: the number of matches and their truth values are
  drawn at random; what two invocations with the same pattern and \<open>maxResults\<close> agree
  on is the id and the bindings of the match at every position that both return
  (\<open>match_j\<close>, \<open>$X\<close> bound to \<open>Entity_j\<close>, \<open>$Y\<close> to \<open>Property_j\<close>).
\<close>

theorem patternMatch_ids_bindings_agree:
  assumes "j < length (matches (fst (patternMatch context w1)))"
    and "j < length (matches (fst (patternMatch context w2)))"
  shows "matchId (matches (fst (patternMatch context w1)) ! j) =
           matchId (matches (fst (patternMatch context w2)) ! j) \<and>
         bindings (matches (fst (patternMatch context w1)) ! j) =
           bindings (matches (fst (patternMatch context w2)) ! j)"
  using assms numbered_patternMatch [of "context" w1] numbered_patternMatch [of "context" w2]
  by (simp add: numbered_def)

text \<open>The first match of a run that returns 1 match and of a run that returns 3.\<close>

theorem patternMatch_ids_bindings_agree_witness:
  "0 < length (matches (fst (patternMatch (atomspace_example ''ConceptNode'' (Finite 10) [])
         low_then_half_world))) \<and>
   0 < length (matches (fst (patternMatch (atomspace_example ''ConceptNode'' (Finite 10) [])
         (constant_world (1 / 2))))) \<and>
   matchId (matches (fst (patternMatch (atomspace_example ''ConceptNode'' (Finite 10) [])
         low_then_half_world)) ! 0) =
   matchId (matches (fst (patternMatch (atomspace_example ''ConceptNode'' (Finite 10) [])
         (constant_world (1 / 2)))) ! 0) \<and>
   bindings (matches (fst (patternMatch (atomspace_example ''ConceptNode'' (Finite 10) [])
         low_then_half_world)) ! 0) =
   bindings (matches (fst (patternMatch (atomspace_example ''ConceptNode'' (Finite 10) [])
         (constant_world (1 / 2)))) ! 0)"
proof -
  let ?c = "atomspace_example ''ConceptNode'' (Finite 10) []"
  have a: "0 < length (matches (fst (patternMatch ?c low_then_half_world)))"
    and b: "0 < length (matches (fst (patternMatch ?c (constant_world (1 / 2)))))"
    by (simp_all add: patternMatch_example_length)
  show ?thesis
    using a b patternMatch_ids_bindings_agree [OF a b] by simp
qed

section \<open>The ReasoningEngine node: parameters\<close>

text \<open>
  Claim C8: a 0 supplied for \<open>maxSteps\<close>, \<open>confidenceThreshold\<close> or \<open>maxResults\<close> is
  replaced by the default (10, 0.7, 10), each parameter on its own, so that none of
  the three parameters a reasoning run works with is ever 0.
\<close>

theorem getReasoningParams_zero_defaults:
  "(p_reasoningParams context = Some v \<and> maxSteps v = Some (Finite 0) \<longrightarrow>
      maxSteps (getReasoningParams context) = Finite 10) \<and>
   (p_reasoningParams context = Some v \<and> confidenceThreshold v = Some (Finite 0) \<longrightarrow>
      confidenceThreshold (getReasoningParams context) = Finite 0.7) \<and>
   (p_reasoningParams context = Some v \<and> maxResults v = Some (Finite 0) \<longrightarrow>
      maxResults (getReasoningParams context) = Finite 10) \<and>
   maxSteps (getReasoningParams context) \<noteq> Finite 0 \<and>
   confidenceThreshold (getReasoningParams context) \<noteq> Finite 0 \<and>
   maxResults (getReasoningParams context) \<noteq> Finite 0"
  using getReasoningParams_truthy [of "context"]
  by (auto simp: getReasoningParams_def or_default_def truthy_def)

text \<open>All three parameters supplied as 0: the run works with 10, 0.7 and 10.\<close>

theorem getReasoningParams_zero_defaults_witness:
  "p_reasoningParams zero_example = Some zero_params \<and>
   maxSteps zero_params = Some (Finite 0) \<and>
   confidenceThreshold zero_params = Some (Finite 0) \<and>
   maxResults zero_params = Some (Finite 0) \<and>
   maxSteps (getReasoningParams zero_example) = Finite 10 \<and>
   confidenceThreshold (getReasoningParams zero_example) = Finite 0.7 \<and>
   maxResults (getReasoningParams zero_example) = Finite 10"
proof -
  have "p_reasoningParams zero_example = Some zero_params"
    and "maxSteps zero_params = Some (Finite 0)"
    and "confidenceThreshold zero_params = Some (Finite 0)"
    and "maxResults zero_params = Some (Finite 0)"
    by (simp_all add: zero_example_def zero_params_def)
  then show ?thesis
    using getReasoningParams_zero_defaults [of zero_example zero_params] by simp
qed

section \<open>The ReasoningEngine node: forward chaining\<close>

lemma forwardChaining_body_length:
  "length (fst (forwardChaining_body params i s)) = Suc (length (fst s))"
  "length (fst (snd (forwardChaining_body params i s))) \<le> Suc (length (fst (snd s)))"
  by (cases s; simp add: Let_def split_def)+

text \<open>The guard before the push keeps every conclusion at or above the threshold.\<close>

lemma forwardChaining_body_conclusions:
  assumes "\<forall>c\<in>set (fst (snd s)). num_ge (conclusion_confidence c) (confidenceThreshold params)"
  shows "\<forall>c\<in>set (fst (snd (forwardChaining_body params i s))).
           num_ge (conclusion_confidence c) (confidenceThreshold params)"
  using assms by (cases s) (auto simp: Let_def split_def)

lemma forwardChaining_loop_conclusions:
  assumes "\<forall>c\<in>set (fst (snd s)). num_ge (conclusion_confidence c) (confidenceThreshold params)"
  shows "\<forall>c\<in>set (fst (snd (forwardChaining_loop params i s))).
           num_ge (conclusion_confidence c) (confidenceThreshold params)"
  using assms
proof (induction params i s rule: forwardChaining_loop.induct)
  case (1 params i s)
  show ?case
  proof (cases "num_lt (Finite (real i)) (Math_min (maxSteps params) (Finite 5))")
    case True
    have "\<forall>c\<in>set (fst (snd (forwardChaining_loop params (i + 1) (forwardChaining_body params i s)))).
            num_ge (conclusion_confidence c) (confidenceThreshold params)"
      using True "1.prems" by (intro "1.IH" forwardChaining_body_conclusions)
    then show ?thesis
      using True by (subst forwardChaining_loop.simps) simp
  next
    case False
    then show ?thesis
      using "1.prems" by (subst forwardChaining_loop.simps) simp
  qed
qed

text \<open>The loop stops at index 5 at the latest.\<close>

lemma forwardChaining_loop_length:
  "length (fst (forwardChaining_loop params i s)) \<le> length (fst s) + (5 - i) \<and>
   length (fst (snd (forwardChaining_loop params i s))) \<le> length (fst (snd s)) + (5 - i)"
proof (induction params i s rule: forwardChaining_loop.induct)
  case (1 params i s)
  show ?case
  proof (cases "num_lt (Finite (real i)) (Math_min (maxSteps params) (Finite 5))")
    case True
    then have "i < 5"
      using loop_index_below by fastforce
    moreover have "forwardChaining_loop params i s =
        forwardChaining_loop params (i + 1) (forwardChaining_body params i s)"
      using True by (subst forwardChaining_loop.simps) simp
    ultimately show ?thesis
      using "1.IH" [OF True] forwardChaining_body_length [of params i s]
      by (simp only:; arith)
  next
    case False
    then have "forwardChaining_loop params i s = s"
      by (subst forwardChaining_loop.simps) simp
    then show ?thesis
      by simp
  qed
qed

text \<open>
  With a finite \<open>maxSteps = x\<close> it stops at the first index that is not below
  \<open>min x 5\<close>.
\<close>

lemma forwardChaining_loop_length_finite:
  assumes "maxSteps params = Finite x"
  shows "length (fst (forwardChaining_loop params i s)) \<le> length (fst s) + (nat \<lceil>min x 5\<rceil> - i)"
  using assms
proof (induction params i s rule: forwardChaining_loop.induct)
  case (1 params i s)
  show ?case
  proof (cases "num_lt (Finite (real i)) (Math_min (maxSteps params) (Finite 5))")
    case True
    then have "real i < min x 5"
      using "1.prems" by (auto simp: Math_min_def split: if_splits)
    then have "int i < \<lceil>min x 5\<rceil>"
      by (simp add: less_ceiling_iff)
    then have "i < nat \<lceil>min x 5\<rceil>"
      by linarith
    moreover have "forwardChaining_loop params i s =
        forwardChaining_loop params (i + 1) (forwardChaining_body params i s)"
      using True by (subst forwardChaining_loop.simps) simp
    ultimately show ?thesis
      using "1.IH" [OF True "1.prems"] forwardChaining_body_length [of params i s]
      by (simp only:; arith)
  next
    case False
    then have "forwardChaining_loop params i s = s"
      by (subst forwardChaining_loop.simps) simp
    then show ?thesis
      by simp
  qed
qed


lemma forward_example_conclusions:
  "map conclusion_confidence (conclusions (fst (performForwardChaining
      (reasoning_example (Some (Finite 2))) (constant_world (9 / 10))))) =
     [Finite (9 / 10), Finite (9 / 10)]"
  by (simp add: performForwardChaining_def Let_def split_def forwardChaining_loop.simps
      Math_min_def Math_max_def num_ge_def)

text \<open>
  Claim C3: for every input knowledge and every parameter set, every conclusion that
  forward chaining returns has a confidence greater than or equal to the
  \<open>confidenceThreshold\<close> the run works with (the result of \<open>getReasoningParams\<close>), and
  therefore also to the threshold the caller supplied, when that is a number.
\<close>

theorem forward_conclusions_reach_threshold:
  assumes "c \<in> set (conclusions (fst (performForwardChaining context w)))"
  shows "num_ge (conclusion_confidence c) (confidenceThreshold (getReasoningParams context)) \<and>
         (p_reasoningParams context = Some v \<and> confidenceThreshold v = Some t \<and> t \<noteq> NaN \<longrightarrow>
            num_ge (conclusion_confidence c) t)"
proof -
  have "\<forall>c\<in>set (fst (snd (forwardChaining_loop (getReasoningParams context) 0 ([], [], w)))).
     num_ge (conclusion_confidence c) (confidenceThreshold (getReasoningParams context))"
    by (rule forwardChaining_loop_conclusions) simp
  then have "num_ge (conclusion_confidence c) (confidenceThreshold (getReasoningParams context))"
    using assms by (simp add: performForwardChaining_def Let_def split_def)
  then show ?thesis
    using supplied_threshold_below by blast
qed

text \<open>
  A run with \<open>maxSteps = 2\<close>, threshold 0.7 and draws of 0.9: two conclusions, both of
  confidence 0.9.
\<close>

theorem forward_conclusions_reach_threshold_witness:
  "length (conclusions (fst (performForwardChaining (reasoning_example (Some (Finite 2)))
      (constant_world (9 / 10))))) = 2 \<and>
   num_ge (conclusion_confidence (conclusions (fst (performForwardChaining
      (reasoning_example (Some (Finite 2))) (constant_world (9 / 10)))) ! 1)) (Finite 0.7)"
proof -
  let ?c = "reasoning_example (Some (Finite 2))"
  let ?cs = "conclusions (fst (performForwardChaining ?c (constant_world (9 / 10))))"
  have len: "length ?cs = 2"
    using forward_example_conclusions by (metis length_map length_Cons list.size(3) numeral_2_eq_2)
  then have "?cs ! 1 \<in> set ?cs"
    by simp
  then have "num_ge (conclusion_confidence (?cs ! 1)) (confidenceThreshold (getReasoningParams ?c))"
    using forward_conclusions_reach_threshold by blast
  then show ?thesis
    using len by simp
qed

text \<open>
  The steps list and the conclusions list each contain at most 5 entries, and when
  the \<open>maxSteps\<close> the loop works with is a whole number \<open>n\<close> the steps are at most
  \<open>min n 5\<close>.
\<close>

lemma forward_at_most_five:
  "length (steps (fst (performForwardChaining context w))) \<le> 5 \<and>
   length (conclusions (fst (performForwardChaining context w))) \<le> 5 \<and>
   (maxSteps (getReasoningParams context) = Finite (real n) \<longrightarrow>
      length (steps (fst (performForwardChaining context w))) \<le> min n 5)"
proof -
  let ?params = "getReasoningParams context"
  let ?loop = "forwardChaining_loop ?params 0 ([], [], w)"
  have fields: "steps (fst (performForwardChaining context w)) = fst ?loop"
    "conclusions (fst (performForwardChaining context w)) = fst (snd ?loop)"
    by (simp_all add: performForwardChaining_def Let_def split_def)
  have five: "length (fst ?loop) \<le> 5" "length (fst (snd ?loop)) \<le> 5"
    using forwardChaining_loop_length [of ?params 0 "([], [], w)"] by simp_all
  have "length (fst ?loop) \<le> min n 5" if "maxSteps ?params = Finite (real n)"
  proof -
    have "nat \<lceil>min (real n) 5\<rceil> = min n 5"
      by (simp add: min_def)
    then show ?thesis
      using forwardChaining_loop_length_finite [OF that, of 0 "([], [], w)"] by simp
  qed
  then show ?thesis
    using five by (simp only: fields) blast
qed


section \<open>The ReasoningEngine node: backward chaining\<close>

text \<open>
  Folding \<open>Math.min\<close> over numbers without NaN gives the start value or one of the
  numbers, and nothing is below it.
\<close>

lemma foldl_Math_min:
  assumes "a \<noteq> NaN" and "\<forall>x\<in>set xs. x \<noteq> NaN"
  shows "foldl Math_min a xs \<noteq> NaN \<and>
         (foldl Math_min a xs = a \<or> foldl Math_min a xs \<in> set xs) \<and>
         num_ge a (foldl Math_min a xs) \<and>
         (\<forall>x\<in>set xs. num_ge x (foldl Math_min a xs))"
  using assms
proof (induction xs arbitrary: a)
  case Nil
  then show ?case
    by (cases a) (auto simp: num_ge_def)
next
  case (Cons x xs)
  let ?b = "Math_min a x"
  have x: "x \<noteq> NaN" and xs: "\<forall>y\<in>set xs. y \<noteq> NaN"
    using Cons.prems by simp_all
  note m = Math_min_cases [OF Cons.prems(1) x]
  have ih: "foldl Math_min ?b xs \<noteq> NaN"
    "foldl Math_min ?b xs = ?b \<or> foldl Math_min ?b xs \<in> set xs"
    "num_ge ?b (foldl Math_min ?b xs)"
    "\<forall>y\<in>set xs. num_ge y (foldl Math_min ?b xs)"
    using Cons.IH [OF m(1) xs] by simp_all
  have "num_ge a (foldl Math_min ?b xs)" and "num_ge x (foldl Math_min ?b xs)"
    using m(3,4) ih(3) by (blast intro: num_ge_trans)+
  moreover have "foldl Math_min ?b xs = a \<or> foldl Math_min ?b xs \<in> set (x # xs)"
    using ih(2) m(2) by auto
  ultimately show ?case
    using ih(1,4) by simp
qed

lemma reduce_min_foldl: "reduce_min gs = foldl Math_min (Finite 1) (map subgoal_confidence gs)"
  by (simp add: reduce_min_def foldl_map)

text \<open>
  Started at 1 over a non-empty list of confidences below 1, the fold returns their
  minimum.
\<close>

lemma reduce_min_is_minimum:
  assumes "gs \<noteq> []" and "\<forall>g\<in>set gs. num_lt (subgoal_confidence g) (Finite 1)"
  shows "is_minimum_of (reduce_min gs) (map subgoal_confidence gs)"
proof -
  let ?xs = "map subgoal_confidence gs"
  let ?m = "foldl Math_min (Finite 1) ?xs"
  have below: "\<forall>x\<in>set ?xs. num_lt x (Finite 1)"
    using assms(2) by simp
  then have "\<forall>x\<in>set ?xs. x \<noteq> NaN"
    by auto
  then have f: "?m = Finite 1 \<or> ?m \<in> set ?xs" "\<forall>x\<in>set ?xs. num_ge x ?m"
    using foldl_Math_min [of "Finite 1" ?xs] by simp_all
  obtain x where x: "x \<in> set ?xs"
    using assms(1) by (cases gs) auto
  have "?m \<noteq> Finite 1"
  proof
    assume "?m = Finite 1"
    then have "num_ge x (Finite 1)"
      using f(2) x by metis
    moreover have "num_lt x (Finite 1)"
      using below x by blast
    ultimately show False
      by (simp add: num_ge_def)
  qed
  then have "?m \<in> set ?xs"
    using f(1) by blast
  then show ?thesis
    using f(2) by (simp add: is_minimum_of_def reduce_min_foldl)
qed

lemma drawn_body: "drawn s \<Longrightarrow> drawn (backwardChaining_body i s)"
  by (cases s) (auto simp: drawn_def Let_def split_def valid_randoms_def)

lemma drawn_loop: "drawn s \<Longrightarrow> drawn (backwardChaining_loop params i s)"
proof (induction params i s rule: backwardChaining_loop.induct)
  case (1 params i s)
  show ?case
  proof (cases "num_lt (Finite (real i)) (Math_min (maxSteps params) (Finite 3))")
    case True
    have "drawn (backwardChaining_loop params (i + 1) (backwardChaining_body i s))"
      using True "1.prems" by (intro "1.IH" drawn_body)
    then show ?thesis
      using True by (subst backwardChaining_loop.simps) simp
  next
    case False
    then show ?thesis
      using "1.prems" by (subst backwardChaining_loop.simps) simp
  qed
qed

lemma backward_fields:
  "overallConfidence (fst (performBackwardChaining c w)) =
     reduce_min (proven (subgoals (fst (performBackwardChaining c w))))"
  "goalProven (fst (performBackwardChaining c w)) =
     num_ge (overallConfidence (fst (performBackwardChaining c w)))
       (confidenceThreshold (getReasoningParams c))"
  "subgoals (fst (performBackwardChaining c w)) =
     fst (backwardChaining_loop (getReasoningParams c) 0 ([], [], w))"
  by (simp_all add: performBackwardChaining_def Let_def split_def)

text \<open>Runs of backward chaining on the example parameters.\<close>

lemma backward_example_none:
  "map status (subgoals (fst (performBackwardChaining (reasoning_example (Some (Finite 5)))
      (constant_world 0)))) = [''unproven'', ''unproven'', ''unproven'']"
  by (simp add: backward_fields(3) backwardChaining_loop.simps Math_min_def num_gt_def
      Let_def split_def)

lemma backward_example_scenario:
  "map status (subgoals (fst (performBackwardChaining (reasoning_example (Some (Finite 5)))
      scenario_world))) = [''proven'', ''proven'', ''proven'']"
  "map subgoal_confidence (subgoals (fst (performBackwardChaining
      (reasoning_example (Some (Finite 5))) scenario_world))) =
     [Finite (9 / 10), Finite (6 / 10), Finite (8 / 10)]"
  by (simp_all add: backward_fields(3) backwardChaining_loop.simps Math_min_def num_gt_def
      Let_def split_def scenario_world_def)

lemma backward_example_scenario_proven:
  "proven_confidences (fst (performBackwardChaining (reasoning_example (Some (Finite 5)))
      scenario_world)) = [Finite (9 / 10), Finite (6 / 10), Finite (8 / 10)]"
proof -
  let ?gs = "subgoals (fst (performBackwardChaining (reasoning_example (Some (Finite 5)))
      scenario_world))"
  have "\<forall>s\<in>set (map status ?gs). s = ''proven''"
    unfolding backward_example_scenario by simp
  then have "proven ?gs = ?gs"
    by (simp add: proven_def)
  then show ?thesis
    by (simp add: proven_confidences_def backward_example_scenario)
qed

lemma backward_example_zero:
  "map status (subgoals (fst (performBackwardChaining zero_example (constant_world (1 / 2))))) =
     [''proven'', ''proven'', ''proven'']"
  "map subgoal_confidence (subgoals (fst (performBackwardChaining zero_example
      (constant_world (1 / 2))))) = [Finite (1 / 2), Finite (1 / 2), Finite (1 / 2)]"
  by (simp_all add: backward_fields(3) backwardChaining_loop.simps Math_min_def num_gt_def
      Let_def split_def getReasoningParams_zero_example constant_world_def Math_random_def)

lemma backward_example_zero_overall:
  "overallConfidence (fst (performBackwardChaining zero_example (constant_world (1 / 2)))) =
     Finite (1 / 2)"
proof -
  let ?gs = "subgoals (fst (performBackwardChaining zero_example (constant_world (1 / 2))))"
  have "\<forall>s\<in>set (map status ?gs). s = ''proven''"
    unfolding backward_example_zero by simp
  then have "proven ?gs = ?gs"
    by (simp add: proven_def)
  then show ?thesis
    by (simp add: backward_fields(1) reduce_min_foldl backward_example_zero Math_min_def)
qed

text \<open>
  Claim C4 expects \<open>goalProven\<close> to be true if and only if \<open>overallConfidence\<close> is
  greater than or equal to \<open>confidenceThreshold\<close>. With a supplied threshold of 0 and
  draws of 1/2 the three subgoals are proven with confidence 0.5, \<open>overallConfidence\<close>
  is 0.5, which is at least 0, and \<open>goalProven\<close> is false: the run compares with the
  default 0.7 that \<open>getReasoningParams\<close> puts in the place of a 0.
\<close>

theorem backward_zero_threshold_not_proven:
  "valid_randoms (constant_world (1 / 2)) \<and>
   p_reasoningParams zero_example = Some zero_params \<and>
   confidenceThreshold zero_params = Some (Finite 0) \<and>
   overallConfidence (fst (performBackwardChaining zero_example (constant_world (1 / 2)))) =
     Finite (1 / 2) \<and>
   num_ge (overallConfidence (fst (performBackwardChaining zero_example (constant_world (1 / 2)))))
     (Finite 0) \<and>
   \<not> goalProven (fst (performBackwardChaining zero_example (constant_world (1 / 2))))"
proof -
  have "p_reasoningParams zero_example = Some zero_params"
    and "confidenceThreshold zero_params = Some (Finite 0)"
    by (simp_all add: zero_example_def zero_params_def)
  then show ?thesis
    by (simp add: backward_fields(2) backward_example_zero_overall getReasoningParams_zero_example
        num_ge_def)
qed

text \<open>
  Claim C4, amended: in every backward chaining run \<open>overallConfidence\<close> equals the
  minimum confidence among the proven subgoals (1, the start value of the reduce, when
  none is proven), and \<open>goalProven\<close> is true if and only if \<open>overallConfidence\<close> is
  greater than or equal to the confidence threshold in force: the supplied
  \<open>confidenceThreshold\<close> when that is a number other than 0, and the default 0.7 when
  a 0, NaN or no threshold is supplied. The draws are those of \<open>Math.random()\<close>, in
  \<open>[0, 1)\<close>.
\<close>

theorem backward_overallConfidence_minimum:
  assumes "valid_randoms w"
  shows "(proven_confidences (fst (performBackwardChaining context w)) \<noteq> [] \<longrightarrow>
            is_minimum_of (overallConfidence (fst (performBackwardChaining context w)))
              (proven_confidences (fst (performBackwardChaining context w)))) \<and>
         (proven_confidences (fst (performBackwardChaining context w)) = [] \<longrightarrow>
            overallConfidence (fst (performBackwardChaining context w)) = Finite 1) \<and>
         (p_reasoningParams context = Some v \<and> confidenceThreshold v = Some t \<and> truthy t \<longrightarrow>
            (goalProven (fst (performBackwardChaining context w)) \<longleftrightarrow>
               num_ge (overallConfidence (fst (performBackwardChaining context w))) t)) \<and>
         (p_reasoningParams context = Some v \<and> confidenceThreshold v = Some t \<and> \<not> truthy t \<longrightarrow>
            (goalProven (fst (performBackwardChaining context w)) \<longleftrightarrow>
               num_ge (overallConfidence (fst (performBackwardChaining context w))) (Finite 0.7))) \<and>
         (p_reasoningParams context = None \<or>
          (p_reasoningParams context = Some v \<and> confidenceThreshold v = None) \<longrightarrow>
            (goalProven (fst (performBackwardChaining context w)) \<longleftrightarrow>
               num_ge (overallConfidence (fst (performBackwardChaining context w))) (Finite 0.7)))"
proof -
  let ?r = "fst (performBackwardChaining context w)"
  have "drawn (backwardChaining_loop (getReasoningParams context) 0 ([], [], w))"
    using assms by (intro drawn_loop) (simp add: drawn_def)
  then have below: "\<forall>g\<in>set (proven (subgoals ?r)). num_lt (subgoal_confidence g) (Finite 1)"
    by (simp add: backward_fields(3) drawn_def proven_def)
  have minimum: "is_minimum_of (overallConfidence ?r) (proven_confidences ?r)"
    if "proven_confidences ?r \<noteq> []"
  proof -
    have "proven (subgoals ?r) \<noteq> []"
      using that by (simp add: proven_confidences_def)
    then show ?thesis
      unfolding proven_confidences_def backward_fields(1)
      using below by (rule reduce_min_is_minimum)
  qed
  have start: "overallConfidence ?r = Finite 1" if "proven_confidences ?r = []"
    using that by (simp add: backward_fields(1) proven_confidences_def reduce_min_def)
  have supplied: "confidenceThreshold (getReasoningParams context) = t"
    if "p_reasoningParams context = Some v" "confidenceThreshold v = Some t" "truthy t"
    using that by (simp add: getReasoningParams_def or_default_def)
  have falsy: "confidenceThreshold (getReasoningParams context) = Finite 0.7"
    if "p_reasoningParams context = Some v" "confidenceThreshold v = Some t" "\<not> truthy t"
    using that by (simp add: getReasoningParams_def or_default_def)
  have missing: "confidenceThreshold (getReasoningParams context) = Finite 0.7"
    if "p_reasoningParams context = None \<or>
        (p_reasoningParams context = Some v \<and> confidenceThreshold v = None)"
    using that by (auto simp: getReasoningParams_def or_default_def)
  show ?thesis
    using minimum start supplied falsy missing backward_fields(2) [of "context" w]
    by (intro conjI impI) (simp_all del: One_nat_def)
qed

text \<open>
  Three proven subgoals of confidences 0.9, 0.6 and 0.8 with a supplied threshold of
  0.7: \<open>overallConfidence\<close> is their minimum 0.6 and the goal is not proven.
\<close>

theorem backward_overallConfidence_minimum_witness:
  "valid_randoms scenario_world \<and>
   p_reasoningParams (reasoning_example (Some (Finite 5))) =
     Some \<lparr>maxSteps = Some (Finite 5), confidenceThreshold = Some (Finite 0.7),
           maxResults = None, useUncertainty = Some True\<rparr> \<and>
   truthy (Finite 0.7) \<and>
   proven_confidences (fst (performBackwardChaining (reasoning_example (Some (Finite 5)))
      scenario_world)) = [Finite (9 / 10), Finite (6 / 10), Finite (8 / 10)] \<and>
   overallConfidence (fst (performBackwardChaining (reasoning_example (Some (Finite 5)))
      scenario_world)) = Finite (6 / 10) \<and>
   \<not> goalProven (fst (performBackwardChaining (reasoning_example (Some (Finite 5)))
      scenario_world))"
proof -
  let ?c = "reasoning_example (Some (Finite 5))"
  let ?v = "\<lparr>maxSteps = Some (Finite 5), confidenceThreshold = Some (Finite 0.7),
           maxResults = None, useUncertainty = Some True\<rparr>"
  let ?r = "fst (performBackwardChaining ?c scenario_world)"
  have p: "p_reasoningParams ?c = Some ?v" and t: "truthy (Finite 0.7)"
    by (simp_all add: reasoning_example_def truthy_def)
  have "is_minimum_of (overallConfidence ?r) (proven_confidences ?r)"
    and g: "goalProven ?r \<longleftrightarrow> num_ge (overallConfidence ?r) (Finite 0.7)"
    using backward_overallConfidence_minimum [OF valid_randoms_scenario_world,
        of ?c ?v "Finite 0.7"] p t
    by (simp_all add: backward_example_scenario_proven)
  then have "overallConfidence ?r = Finite (6 / 10)"
    by (auto simp: backward_example_scenario_proven is_minimum_of_def num_ge_def)
  then show ?thesis
    using g p t by (simp add: backward_example_scenario_proven num_ge_def)
qed

text \<open>
  Claim C9: in every backward chaining run in which no subgoal has status
  \<open>'proven'\<close>, \<open>overallConfidence\<close> is 1, the start value of the fold, and so
  \<open>goalProven\<close> is true exactly when \<open>1 >= confidenceThreshold\<close>: for every threshold
  up to 1 a goal with no proven subgoal is reported as proven.
\<close>

theorem backward_none_proven:
  assumes "\<forall>g\<in>set (subgoals (fst (performBackwardChaining context w))). status g \<noteq> ''proven''"
  shows "overallConfidence (fst (performBackwardChaining context w)) = Finite 1 \<and>
         (goalProven (fst (performBackwardChaining context w)) \<longleftrightarrow>
            num_ge (Finite 1) (confidenceThreshold (getReasoningParams context)))"
proof -
  have "proven (subgoals (fst (performBackwardChaining context w))) = []"
    using assms by (simp add: proven_def)
  then have "overallConfidence (fst (performBackwardChaining context w)) = Finite 1"
    by (simp add: backward_fields(1) reduce_min_def)
  then show ?thesis
    by (simp add: backward_fields(2))
qed

text \<open>
  Draws of 0 and threshold 0.7: three subgoals, none proven, and the goal is reported
  as proven with confidence 1.
\<close>

theorem backward_none_proven_witness:
  "map status (subgoals (fst (performBackwardChaining (reasoning_example (Some (Finite 5)))
      (constant_world 0)))) = [''unproven'', ''unproven'', ''unproven''] \<and>
   overallConfidence (fst (performBackwardChaining (reasoning_example (Some (Finite 5)))
      (constant_world 0))) = Finite 1 \<and>
   goalProven (fst (performBackwardChaining (reasoning_example (Some (Finite 5)))
      (constant_world 0)))"
proof -
  let ?r = "fst (performBackwardChaining (reasoning_example (Some (Finite 5))) (constant_world 0))"
  have "\<forall>s\<in>set (map status (subgoals ?r)). s \<noteq> ''proven''"
    unfolding backward_example_none by simp
  then have "\<forall>g\<in>set (subgoals ?r). status g \<noteq> ''proven''"
    by simp
  then have "overallConfidence ?r = Finite 1 \<and>
      (goalProven ?r \<longleftrightarrow>
         num_ge (Finite 1) (confidenceThreshold (getReasoningParams (reasoning_example (Some (Finite 5))))))"
    by (rule backward_none_proven)
  then show ?thesis
    by (simp add: backward_example_none num_ge_def)
qed

section \<open>The ReasoningEngine node: temporal reasoning\<close>

text \<open>
  Claim C7 expects \<open>isConsistent\<close> to be false when the input asserts two mutually
  exclusive relations of one pair. The input knowledge of the example asserts both
  "before" and "after" of Event_A and Event_B; with a draw of 1/2 the run reports
  consistency.
\<close>

theorem temporal_exclusive_relations_consistent:
  "isConsistent (consistencyCheck (fst (performTemporalReasoning
      (reasoning_example (Some (Finite 5))) (constant_world (1 / 2)))))"
  by (simp add: performTemporalReasoning_def Let_def split_def num_gt_def constant_world_def)

text \<open>
  Claim C7, as the code has it: \<open>isConsistent\<close> is true exactly when the first
  \<open>Math.random()\<close> draw of the run exceeds 0.2, whatever the input asserts; no
  violation and no warning is ever reported, and the relations returned are always
  the single relation "Event_A before Event_B" (confidence 0.95, type
  \<open>temporal_precedence\<close>).
\<close>

theorem temporal_isConsistent_drawn:
  "isConsistent (consistencyCheck (fst (performTemporalReasoning context w))) = (0.2 < randoms w 0) \<and>
   violations (consistencyCheck (fst (performTemporalReasoning context w))) = [] \<and>
   warnings (consistencyCheck (fst (performTemporalReasoning context w))) = [] \<and>
   temporalRelations (fst (performTemporalReasoning context w)) =
     [\<lparr>event1 = ''Event_A'', event2 = ''Event_B'', relation = ''before'',
       relation_confidence = Finite 0.95, relation_type = ''temporal_precedence''\<rparr>]"
  by (simp add: performTemporalReasoning_def Let_def split_def num_gt_def)

end
